theory Spec2Isabelle
  imports Complex_Main
begin

section \<open>JavaScript numbers\<close>

text \<open>
  The program computes with JavaScript numbers. They are modelled as the real numbers
  extended with the three special values the code can produce or compare against:
  \<open>NaN\<close>, \<open>-Infinity\<close> and \<open>Infinity\<close>. Arithmetic on finite values is exact
  real arithmetic (rounding, overflow and the sign of zero are not modelled); the
  special values follow the rules of ECMAScript.
\<close>

datatype jsnum = NaN | NegInf | Fin real | PosInf

fun js_neg :: "jsnum \<Rightarrow> jsnum" where
  "js_neg NaN = NaN"
| "js_neg NegInf = PosInf"
| "js_neg PosInf = NegInf"
| "js_neg (Fin a) = Fin (- a)"

fun js_add :: "jsnum \<Rightarrow> jsnum \<Rightarrow> jsnum" where
  "js_add NaN y = NaN"
| "js_add x NaN = NaN"
| "js_add PosInf NegInf = NaN"
| "js_add NegInf PosInf = NaN"
| "js_add PosInf y = PosInf"
| "js_add x PosInf = PosInf"
| "js_add NegInf y = NegInf"
| "js_add x NegInf = NegInf"
| "js_add (Fin a) (Fin b) = Fin (a + b)"

definition js_sub :: "jsnum \<Rightarrow> jsnum \<Rightarrow> jsnum" where
  "js_sub x y = js_add x (js_neg y)"

text \<open>The sign of an infinity after multiplication or division by a finite value.\<close>

fun signed_inf :: "bool \<Rightarrow> jsnum" where
  "signed_inf True = PosInf"
| "signed_inf False = NegInf"

fun js_mul :: "jsnum \<Rightarrow> jsnum \<Rightarrow> jsnum" where
  "js_mul NaN y = NaN"
| "js_mul x NaN = NaN"
| "js_mul PosInf PosInf = PosInf"
| "js_mul PosInf NegInf = NegInf"
| "js_mul NegInf PosInf = NegInf"
| "js_mul NegInf NegInf = PosInf"
| "js_mul PosInf (Fin b) = (if b = 0 then NaN else signed_inf (0 < b))"
| "js_mul NegInf (Fin b) = (if b = 0 then NaN else signed_inf (b < 0))"
| "js_mul (Fin a) PosInf = (if a = 0 then NaN else signed_inf (0 < a))"
| "js_mul (Fin a) NegInf = (if a = 0 then NaN else signed_inf (a < 0))"
| "js_mul (Fin a) (Fin b) = Fin (a * b)"

fun js_div :: "jsnum \<Rightarrow> jsnum \<Rightarrow> jsnum" where
  "js_div NaN y = NaN"
| "js_div x NaN = NaN"
| "js_div PosInf PosInf = NaN"
| "js_div PosInf NegInf = NaN"
| "js_div NegInf PosInf = NaN"
| "js_div NegInf NegInf = NaN"
| "js_div PosInf (Fin b) = signed_inf (0 \<le> b)"
| "js_div NegInf (Fin b) = signed_inf (b < 0)"
| "js_div (Fin a) PosInf = Fin 0"
| "js_div (Fin a) NegInf = Fin 0"
| "js_div (Fin a) (Fin b) =
     (if b = 0 then (if a = 0 then NaN else signed_inf (0 < a)) else Fin (a / b))"

text \<open>Comparisons: every comparison with \<open>NaN\<close> is false, except \<open>!==\<close>.\<close>

fun js_lt :: "jsnum \<Rightarrow> jsnum \<Rightarrow> bool" where
  "js_lt NaN y = False"
| "js_lt x NaN = False"
| "js_lt PosInf y = False"
| "js_lt x NegInf = False"
| "js_lt NegInf y = True"
| "js_lt x PosInf = True"
| "js_lt (Fin a) (Fin b) = (a < b)"

definition js_gt :: "jsnum \<Rightarrow> jsnum \<Rightarrow> bool" where
  "js_gt x y = js_lt y x"

fun js_le :: "jsnum \<Rightarrow> jsnum \<Rightarrow> bool" where
  "js_le NaN y = False"
| "js_le x NaN = False"
| "js_le NegInf y = True"
| "js_le x PosInf = True"
| "js_le PosInf y = False"
| "js_le x NegInf = False"
| "js_le (Fin a) (Fin b) = (a \<le> b)"

definition js_strict_neq :: "jsnum \<Rightarrow> jsnum \<Rightarrow> bool" where
  "js_strict_neq x y = (x = NaN \<or> y = NaN \<or> x \<noteq> y)"

text \<open>\<open>Math.min\<close> of two arguments, \<open>Math.sin\<close>, \<open>Math.cos\<close>, \<open>Math.sqrt\<close>.\<close>

fun Math_min :: "jsnum \<Rightarrow> jsnum \<Rightarrow> jsnum" where
  "Math_min NaN y = NaN"
| "Math_min x NaN = NaN"
| "Math_min x y = (if js_lt y x then y else x)"

fun Math_sin :: "jsnum \<Rightarrow> jsnum" where
  "Math_sin (Fin a) = Fin (sin a)"
| "Math_sin x = NaN"

fun Math_cos :: "jsnum \<Rightarrow> jsnum" where
  "Math_cos (Fin a) = Fin (cos a)"
| "Math_cos x = NaN"

fun Math_sqrt :: "jsnum \<Rightarrow> jsnum" where
  "Math_sqrt NaN = NaN"
| "Math_sqrt NegInf = NaN"
| "Math_sqrt PosInf = PosInf"
| "Math_sqrt (Fin a) = (if a < 0 then NaN else Fin (sqrt a))"

text \<open>The angle of the point \<open>(x, y)\<close>, in \<open>(-pi, pi]\<close>, and \<open>Math.atan2\<close>.\<close>

definition atan2 :: "real \<Rightarrow> real \<Rightarrow> real" where
  "atan2 y x =
     (if 0 < x then arctan (y / x)
      else if x < 0 then (if 0 \<le> y then arctan (y / x) + pi else arctan (y / x) - pi)
      else if 0 < y then pi / 2
      else if y < 0 then - (pi / 2)
      else 0)"

fun Math_atan2 :: "jsnum \<Rightarrow> jsnum \<Rightarrow> jsnum" where
  "Math_atan2 NaN x = NaN"
| "Math_atan2 y NaN = NaN"
| "Math_atan2 PosInf PosInf = Fin (pi / 4)"
| "Math_atan2 PosInf NegInf = Fin (3 * pi / 4)"
| "Math_atan2 NegInf PosInf = Fin (- (pi / 4))"
| "Math_atan2 NegInf NegInf = Fin (- (3 * pi / 4))"
| "Math_atan2 PosInf (Fin b) = Fin (pi / 2)"
| "Math_atan2 NegInf (Fin b) = Fin (- (pi / 2))"
| "Math_atan2 (Fin a) PosInf = Fin 0"
| "Math_atan2 (Fin a) NegInf = (if 0 \<le> a then Fin pi else Fin (- pi))"
| "Math_atan2 (Fin a) (Fin b) = Fin (atan2 a b)"

definition Math_PI :: jsnum where
  "Math_PI = Fin pi"

definition Infinity :: jsnum where
  "Infinity = PosInf"

section \<open>utils/distance.ts\<close>

text \<open>\<open>calculateDistance\<close>: the haversine formula, in metres.\<close>

definition calculateDistance :: "jsnum \<Rightarrow> jsnum \<Rightarrow> jsnum \<Rightarrow> jsnum \<Rightarrow> jsnum" where
  "calculateDistance lat1 lon1 lat2 lon2 =
     (let R = Fin 6371000;
          phi1 = js_div (js_mul lat1 Math_PI) (Fin 180);
          phi2 = js_div (js_mul lat2 Math_PI) (Fin 180);
          dphi = js_div (js_mul (js_sub lat2 lat1) Math_PI) (Fin 180);
          dlam = js_div (js_mul (js_sub lon2 lon1) Math_PI) (Fin 180);
          a = js_add
                (js_mul (Math_sin (js_div dphi (Fin 2))) (Math_sin (js_div dphi (Fin 2))))
                (js_mul
                   (js_mul (js_mul (Math_cos phi1) (Math_cos phi2))
                      (Math_sin (js_div dlam (Fin 2))))
                   (Math_sin (js_div dlam (Fin 2))));
          c = js_mul (Fin 2) (Math_atan2 (Math_sqrt a) (Math_sqrt (js_sub (Fin 1) a)))
      in js_mul R c)"



text \<open>
  \<open>distanceToSegment\<close>. The parameter of the projection starts at \<open>-1\<close> and is only
  replaced by the quotient when the squared length is not zero.
\<close>

definition segmentParam :: "jsnum \<Rightarrow> jsnum \<Rightarrow> jsnum \<Rightarrow> jsnum \<Rightarrow> jsnum \<Rightarrow> jsnum \<Rightarrow> jsnum" where
  "segmentParam px py x1 y1 x2 y2 =
     (let A = js_sub px x1;
          B = js_sub py y1;
          C = js_sub x2 x1;
          D = js_sub y2 y1;
          dot = js_add (js_mul A C) (js_mul B D);
          lenSq = js_add (js_mul C C) (js_mul D D)
      in if js_strict_neq lenSq (Fin 0) then js_div dot lenSq else Fin (- 1))"

definition distanceToSegment :: "jsnum \<Rightarrow> jsnum \<Rightarrow> jsnum \<Rightarrow> jsnum \<Rightarrow> jsnum \<Rightarrow> jsnum \<Rightarrow> jsnum" where
  "distanceToSegment px py x1 y1 x2 y2 =
     (let C = js_sub x2 x1;
          D = js_sub y2 y1;
          param = segmentParam px py x1 y1 x2 y2;
          (xx, yy) =
            (if js_lt param (Fin 0) then (x1, y1)
             else if js_gt param (Fin 1) then (x2, y2)
             else (js_add x1 (js_mul param C), js_add y1 (js_mul param D)))
      in calculateDistance py px yy xx)"

text \<open>
  GeoJSON geometries, tagged by their \<open>type\<close>. A position is \<open>[lon, lat]\<close>; a missing
  coordinate reads as \<open>undefined\<close>, which behaves as \<open>NaN\<close> in the arithmetic below.
\<close>

type_synonym position = "jsnum \<times> jsnum"

datatype Geometry =
    Point position
  | MultiPoint "position list"
  | LineString "position list"
  | MultiLineString "position list list"
  | Polygon "position list list"
  | MultiPolygon "position list list list"
  | GeometryCollection "Geometry list"

text \<open>The loop over the consecutive pairs of one line, carrying \<open>minDistance\<close>.\<close>

fun lineLoop :: "jsnum \<Rightarrow> jsnum \<Rightarrow> position list \<Rightarrow> jsnum \<Rightarrow> jsnum" where
  "lineLoop latitude longitude ((lon1, lat1) # (lon2, lat2) # rest) minDistance =
     lineLoop latitude longitude ((lon2, lat2) # rest)
       (Math_min minDistance (distanceToSegment longitude latitude lon1 lat1 lon2 lat2))"
| "lineLoop latitude longitude coordinates minDistance = minDistance"

fun multiLineLoop :: "jsnum \<Rightarrow> jsnum \<Rightarrow> position list list \<Rightarrow> jsnum \<Rightarrow> jsnum" where
  "multiLineLoop latitude longitude [] minDistance = minDistance"
| "multiLineLoop latitude longitude (lineString # rest) minDistance =
     multiLineLoop latitude longitude rest (lineLoop latitude longitude lineString minDistance)"

fun distanceToGeometry :: "jsnum \<Rightarrow> jsnum \<Rightarrow> Geometry \<Rightarrow> jsnum" where
  "distanceToGeometry latitude longitude (LineString coordinates) =
     lineLoop latitude longitude coordinates Infinity"
| "distanceToGeometry latitude longitude (MultiLineString coordinates) =
     multiLineLoop latitude longitude coordinates Infinity"
| "distanceToGeometry latitude longitude (Point (lon, lat)) =
     calculateDistance latitude longitude lat lon"
| "distanceToGeometry latitude longitude geometry = Infinity"

text \<open>The geometry variants for which \<open>distanceToGeometry\<close> has a branch.\<close>

fun supportedGeometry :: "Geometry \<Rightarrow> bool" where
  "supportedGeometry (Point p) = True"
| "supportedGeometry (LineString cs) = True"
| "supportedGeometry (MultiLineString css) = True"
| "supportedGeometry g = False"

section \<open>types/index.ts\<close>

text \<open>
  Of the properties of a route feature only \<open>id\<close>, \<open>name\<close> and \<open>requiresPayment\<close>
  are kept; the others are optional and only displayed.
\<close>

record RouteProperties =
  id' :: string
  name :: string
  requiresPayment :: bool

record RouteFeature =
  geometry :: Geometry
  properties :: RouteProperties

record RouteCollection =
  features :: "RouteFeature list"

record UserLocation =
  latitude :: jsnum
  longitude :: jsnum
  accuracy :: jsnum

record PaidRoute =
  routeId :: string
  paidDate :: string

record NearbyRoute =
  route :: RouteFeature
  distance :: jsnum

datatype InfoPanelView = MainView | RoutesListView | PassInfoView | AboutView | RouteDetailView

record InfoPanelState =
  isOpen :: bool
  view :: InfoPanelView
  selectedRoute :: "RouteFeature option"
  nearbyRoute :: "NearbyRoute option"

section \<open>utils/cookies.ts\<close>

text \<open>
  The state of the cookie \<open>madeira_hiking_paid_routes\<close> as \<open>document.cookie\<close> shows it:
  absent (never set, cleared, or expired and dropped by the browser), present with a
  value that does not decode or parse, or present with the serialised list of marks.
  Encoding with \<open>encodeURIComponent (JSON.stringify xs)\<close> and decoding with
  \<open>JSON.parse (decodeURIComponent v)\<close> is taken as a lossless round trip of the list.
  The current date, \<open>new Date().toISOString().split('T')[0]\<close>, is the argument
  \<open>today\<close> of the functions that read the clock.
\<close>

datatype cookie_jar = NoCookie | Unparsable | Stored "PaidRoute list"

fun getPaidRoutes :: "cookie_jar \<Rightarrow> PaidRoute list" where
  "getPaidRoutes NoCookie = []"
| "getPaidRoutes Unparsable = []"
| "getPaidRoutes (Stored paidRoutes) = paidRoutes"

definition isRoutePaid :: "string \<Rightarrow> string \<Rightarrow> cookie_jar \<Rightarrow> bool" where
  "isRoutePaid rid today jar =
     (let paidRoutes = getPaidRoutes jar
      in list_ex (\<lambda>r. routeId r = rid \<and> paidDate r = today) paidRoutes)"

definition markRoutePaid :: "string \<Rightarrow> string \<Rightarrow> cookie_jar \<Rightarrow> cookie_jar" where
  "markRoutePaid rid today jar =
     (let paidRoutes = getPaidRoutes jar;
          filteredRoutes = filter (\<lambda>r. routeId r \<noteq> rid) paidRoutes
      in Stored (filteredRoutes @ [\<lparr>routeId = rid, paidDate = today\<rparr>]))"

definition clearPaidRoutes :: "cookie_jar \<Rightarrow> cookie_jar" where
  "clearPaidRoutes jar = NoCookie"

text \<open>
  Modelled from the spec: \<open>unmarkRoutePaid\<close> is imported from \<open>utils/cookies\<close> and called
  by \<open>handleUnmarkPaid\<close> in \<open>App.tsx\<close>, but its definition is not part of the sources at hand.
  The specification says: "\<open>unmarkPaid(routeId)\<close>: removes any active mark for routeId,
  regardless of date. No-op and non-failing if no mark exists."
\<close>

definition unmarkRoutePaid :: "string \<Rightarrow> cookie_jar \<Rightarrow> cookie_jar" where
  "unmarkRoutePaid rid jar =
     (let paidRoutes = getPaidRoutes jar
      in if list_ex (\<lambda>r. routeId r = rid) paidRoutes
         then Stored (filter (\<lambda>r. routeId r \<noteq> rid) paidRoutes)
         else jar)"

text \<open>The operations on the ledger, and a run of a sequence of them.\<close>

datatype ledger_op = MarkPaid string string | UnmarkPaid string | Clear

fun applyOp :: "cookie_jar \<Rightarrow> ledger_op \<Rightarrow> cookie_jar" where
  "applyOp jar (MarkPaid rid today) = markRoutePaid rid today jar"
| "applyOp jar (UnmarkPaid rid) = unmarkRoutePaid rid jar"
| "applyOp jar Clear = clearPaidRoutes jar"

definition runOps :: "cookie_jar \<Rightarrow> ledger_op list \<Rightarrow> cookie_jar" where
  "runOps jar ops = foldl applyOp jar ops"

text \<open>At most one mark per route id.\<close>

definition oneMarkPerRoute :: "cookie_jar \<Rightarrow> bool" where
  "oneMarkPerRoute jar = distinct (map routeId (getPaidRoutes jar))"

section \<open>App.tsx\<close>

definition PROXIMITY_THRESHOLD :: jsnum where
  "PROXIMITY_THRESHOLD = Fin 50"

record AppState =
  userLocation :: "UserLocation option"
  routes :: "RouteCollection option"
  paidRouteIds :: "string list"
  selectedRouteId :: "string option"
  infoPanelState :: InfoPanelState

text \<open>
  Loading the routes. The outcome of \<open>fetch\<close> is a rejection or a response with its
  \<open>ok\<close> flag and its body; the body is \<open>None\<close> when \<open>res.json()\<close> rejects or the
  value has no \<open>features\<close> array to take the length of. Every failure ends in the
  \<open>catch\<close> handler, which only logs.
\<close>

datatype fetch_result = FetchRejected | Response bool "RouteCollection option"

datatype load_error = NetworkError | HttpError | BodyError

fun fetchRoutes :: "fetch_result \<Rightarrow> load_error + RouteCollection" where
  "fetchRoutes FetchRejected = Inl NetworkError"
| "fetchRoutes (Response ok body) =
     (if \<not> ok then Inl HttpError
      else case body of None \<Rightarrow> Inl BodyError | Some data \<Rightarrow> Inr data)"

definition loadRoutes :: "fetch_result \<Rightarrow> AppState \<Rightarrow> AppState" where
  "loadRoutes res s =
     (case fetchRoutes res of
        Inl err \<Rightarrow> s
      | Inr data \<Rightarrow> s\<lparr>routes := Some data\<rparr>)"

text \<open>What a validation of the catalogue would reject.\<close>

definition duplicateIds :: "RouteCollection \<Rightarrow> bool" where
  "duplicateIds data = (\<not> distinct (map (\<lambda>f. id' (properties f)) (features data)))"

definition unsupportedGeometries :: "RouteCollection \<Rightarrow> bool" where
  "unsupportedGeometries data = list_ex (\<lambda>f. \<not> supportedGeometry (geometry f)) (features data)"

text \<open>The scan for the closest route, carrying \<open>closestRoute\<close> and \<open>minDistance\<close>.\<close>

definition featureDistance :: "UserLocation \<Rightarrow> RouteFeature \<Rightarrow> jsnum" where
  "featureDistance loc feature =
     distanceToGeometry (latitude loc) (longitude loc) (geometry feature)"

fun closestLoop ::
  "UserLocation \<Rightarrow> RouteFeature list \<Rightarrow> NearbyRoute option \<times> jsnum \<Rightarrow> NearbyRoute option \<times> jsnum"
where
  "closestLoop loc [] (closestRoute, minDistance) = (closestRoute, minDistance)"
| "closestLoop loc (feature # rest) (closestRoute, minDistance) =
     (let d = featureDistance loc feature
      in if js_lt d minDistance
         then closestLoop loc rest (Some \<lparr>route = feature, distance = d\<rparr>, d)
         else closestLoop loc rest (closestRoute, minDistance))"

definition closestRouteOf :: "UserLocation \<Rightarrow> RouteCollection \<Rightarrow> NearbyRoute option \<times> jsnum" where
  "closestRouteOf loc rs = closestLoop loc (features rs) (None, Infinity)"

text \<open>The effect that checks the proximity to the routes, run on every new location.\<close>

definition checkProximity :: "string \<Rightarrow> cookie_jar \<Rightarrow> AppState \<Rightarrow> AppState" where
  "checkProximity today jar s =
     (case (userLocation s, routes s) of
        (Some loc, Some rs) \<Rightarrow>
          (case fst (closestRouteOf loc rs) of
             None \<Rightarrow> s
           | Some closestRoute \<Rightarrow>
               if js_le (distance closestRoute) PROXIMITY_THRESHOLD
               then (let rid = id' (properties (route closestRoute));
                         requiresPay = requiresPayment (properties (route closestRoute));
                         isPaid = isRoutePaid rid today jar
                     in if requiresPay \<and> \<not> isPaid
                        then s\<lparr>infoPanelState :=
                               \<lparr>isOpen = True, view = RouteDetailView,
                                selectedRoute = Some (route closestRoute),
                                nearbyRoute = Some closestRoute\<rparr>\<rparr>
                        else s)
               else s)
      | _ \<Rightarrow> s)"

definition handleMarkPaid :: "string \<Rightarrow> string \<Rightarrow> cookie_jar \<times> AppState \<Rightarrow> cookie_jar \<times> AppState" where
  "handleMarkPaid rid today js =
     (let jar = markRoutePaid rid today (fst js);
          paid = getPaidRoutes jar
      in (jar, (snd js)\<lparr>paidRouteIds := map routeId paid\<rparr>))"

definition handleUnmarkPaid :: "string \<Rightarrow> cookie_jar \<times> AppState \<Rightarrow> cookie_jar \<times> AppState" where
  "handleUnmarkPaid rid js =
     (let jar = unmarkRoutePaid rid (fst js);
          paid = getPaidRoutes jar
      in (jar, (snd js)\<lparr>paidRouteIds := map routeId paid\<rparr>))"

section \<open>components/InfoPanel.tsx\<close>

text \<open>
  The message at the top of the route detail, chosen by \<open>renderRouteDetail\<close> from
  \<open>isNearby\<close> and \<open>isPaid\<close>; \<open>renderContent\<close> shows the route detail only in the view
  \<open>route-detail\<close> with a selected route.
\<close>

datatype message = WarningMessage | SuccessMessage | InfoMessage

definition renderRouteDetail :: "string \<Rightarrow> cookie_jar \<Rightarrow> RouteFeature \<Rightarrow> jsnum option \<Rightarrow> message" where
  "renderRouteDetail today jar r distance_opt =
     (let rid = id' (properties r);
          isPaid = isRoutePaid rid today jar;
          isNearby = (case distance_opt of None \<Rightarrow> False | Some d \<Rightarrow> js_le d (Fin 50))
      in if isNearby \<and> \<not> isPaid then WarningMessage
         else if isNearby \<and> isPaid then SuccessMessage
         else if \<not> isNearby \<and> \<not> isPaid then InfoMessage
         else SuccessMessage)"

definition renderContent :: "string \<Rightarrow> cookie_jar \<Rightarrow> InfoPanelState \<Rightarrow> message option" where
  "renderContent today jar st =
     (case (view st, selectedRoute st) of
        (RouteDetailView, Some r) \<Rightarrow>
          Some (renderRouteDetail today jar r (map_option distance (nearbyRoute st)))
      | _ \<Rightarrow> None)"

section \<open>The haversine term\<close>

text \<open>The value \<open>a\<close> of \<open>calculateDistance\<close> on finite arguments, over the reals.\<close>

definition hav :: "real \<Rightarrow> real \<Rightarrow> real \<Rightarrow> real \<Rightarrow> real" where
  "hav lat1 lon1 lat2 lon2 =
     sin ((lat2 - lat1) * pi / 180 / 2) * sin ((lat2 - lat1) * pi / 180 / 2) +
     cos (lat1 * pi / 180) * cos (lat2 * pi / 180) *
       sin ((lon2 - lon1) * pi / 180 / 2) * sin ((lon2 - lon1) * pi / 180 / 2)"

section \<open>Example data\<close>

text \<open>
  The scenario of the specification: route PR8 is the polyline through
  (32.75, -16.95), (32.76, -16.94), (32.77, -16.93) (latitude, longitude) and requires
  payment; the fix is at (32.751, -16.949), on the first segment.
\<close>

definition pr8 :: RouteFeature where
  "pr8 = \<lparr>geometry = LineString
             [(Fin (- 16.95), Fin 32.75), (Fin (- 16.94), Fin 32.76), (Fin (- 16.93), Fin 32.77)],
           properties = \<lparr>id' = ''PR8'', name = ''Levada do Furado'', requiresPayment = True\<rparr>\<rparr>"

definition pr8twin :: RouteFeature where
  "pr8twin = pr8\<lparr>properties := \<lparr>id' = ''PR8b'', name = ''Twin'', requiresPayment = True\<rparr>\<rparr>"

definition emptyRoute :: RouteFeature where
  "emptyRoute = \<lparr>geometry = MultiLineString [],
                  properties = \<lparr>id' = ''PR0'', name = ''Empty'', requiresPayment = True\<rparr>\<rparr>"

definition nanRoute :: RouteFeature where
  "nanRoute = \<lparr>geometry = Point (NaN, NaN),
                properties = \<lparr>id' = ''PR9'', name = ''Nowhere'', requiresPayment = True\<rparr>\<rparr>"

definition polygonRoute :: RouteFeature where
  "polygonRoute = \<lparr>geometry = Polygon [],
                    properties = \<lparr>id' = ''PR8'', name = ''Area'', requiresPayment = True\<rparr>\<rparr>"

definition fix1 :: UserLocation where
  "fix1 = \<lparr>latitude = Fin 32.751, longitude = Fin (- 16.949), accuracy = Fin 10\<rparr>"

definition closedPanel :: InfoPanelState where
  "closedPanel = \<lparr>isOpen = False, view = MainView, selectedRoute = None, nearbyRoute = None\<rparr>"

definition onPr8 :: AppState where
  "onPr8 = \<lparr>userLocation = Some fix1, routes = Some \<lparr>features = [pr8]\<rparr>,
            paidRouteIds = [], selectedRouteId = None, infoPanelState = closedPanel\<rparr>"

definition day1 :: string where
  "day1 = ''2024-05-01''"

definition day2 :: string where
  "day2 = ''2024-05-02''"

definition paid8 :: PaidRoute where
  "paid8 = \<lparr>routeId = ''PR8'', paidDate = day1\<rparr>"

definition paid6 :: PaidRoute where
  "paid6 = \<lparr>routeId = ''PR6'', paidDate = day1\<rparr>"

definition paid1 :: PaidRoute where
  "paid1 = \<lparr>routeId = ''PR1'', paidDate = day2\<rparr>"

section \<open>Facts about the numbers\<close>

lemma js_lt_irrefl: "\<not> js_lt x x"
  by (cases x) simp_all

lemma js_lt_asym: "js_lt x y \<Longrightarrow> \<not> js_lt y x"
  by (cases x; cases y) simp_all

lemma js_lt_trans: "js_lt x y \<Longrightarrow> js_lt y z \<Longrightarrow> js_lt x z"
  by (cases x; cases y; cases z) simp_all

lemma js_lt_PosInf_left: "\<not> js_lt PosInf m"
  by (cases m) simp_all


lemma atan2_nonneg: "0 \<le> y \<Longrightarrow> 0 \<le> x \<Longrightarrow> 0 \<le> atan2 y x"
  by (auto simp: atan2_def arctan_le_zero_iff zero_le_arctan_iff)

section \<open>The haversine term lies between 0 and 1\<close>

lemma sin_half_sq: "sin (x / 2) * sin (x / 2) = (1 - cos x) / (2::real)"
proof -
  have "cos x = cos (2 * (x / 2))" by simp
  also have "\<dots> = 1 - 2 * (sin (x / 2))\<^sup>2" by (rule cos_double_sin)
  finally show ?thesis by (simp add: power2_eq_square)
qed

text \<open>
  The term is a convex combination, with weight \<open>sin\<^sup>2 (l / 2)\<close>, of
  \<open>(1 - cos (v - u)) / 2\<close> and \<open>(1 + cos (v + u)) / 2\<close>, which both lie in \<open>[0, 1]\<close>.
\<close>

lemma haversine_range:
  fixes u v l :: real
  shows "0 \<le> sin ((v - u) / 2) * sin ((v - u) / 2) + cos u * cos v * sin (l / 2) * sin (l / 2)
       \<and> sin ((v - u) / 2) * sin ((v - u) / 2) + cos u * cos v * sin (l / 2) * sin (l / 2) \<le> 1"
proof -
  define a where
    "a = sin ((v - u) / 2) * sin ((v - u) / 2) + cos u * cos v * sin (l / 2) * sin (l / 2)"
  define s where "s = sin (l / 2) * sin (l / 2)"
  have s0: "0 \<le> s" unfolding s_def by simp
  have "s = (1 - cos l) / 2" unfolding s_def by (rule sin_half_sq)
  moreover have "- 1 \<le> cos l" by simp
  ultimately have s1: "s \<le> 1" by argo
  define A0 where "A0 = (1 - cos (v - u)) / 2"
  define A1 where "A1 = (1 + cos (v + u)) / 2"
  have A0r: "0 \<le> A0" "A0 \<le> 1"
    unfolding A0_def using cos_ge_minus_one[of "v - u"] cos_le_one[of "v - u"] by argo+
  have A1r: "0 \<le> A1" "A1 \<le> 1"
    unfolding A1_def using cos_ge_minus_one[of "v + u"] cos_le_one[of "v + u"] by argo+
  have "a = A0 + cos u * cos v * s"
    unfolding a_def s_def A0_def using sin_half_sq[of "v - u"] by (simp add: mult.assoc)
  also have "\<dots> = (1 - s) * A0 + s * A1"
    unfolding A0_def A1_def by (simp add: cos_diff cos_add field_simps)
  finally have eq: "a = (1 - s) * A0 + s * A1" .
  have "0 \<le> (1 - s) * A0 + s * A1" using s0 s1 A0r A1r by simp
  moreover have "(1 - s) * A0 + s * A1 \<le> (1 - s) * 1 + s * 1"
    using s0 s1 A0r A1r by (intro add_mono mult_left_mono) simp_all
  ultimately show ?thesis using eq unfolding a_def by simp
qed

lemma hav_range: "0 \<le> hav lat1 lon1 lat2 lon2 \<and> hav lat1 lon1 lat2 lon2 \<le> 1"
proof -
  have e: "(lat2 - lat1) * pi / 180 = lat2 * pi / 180 - lat1 * pi / 180"
    by (simp add: field_simps)
  show ?thesis
    unfolding hav_def e
    by (rule haversine_range)
qed

lemma hav_same: "hav lat lon lat lon = 0"
  by (simp add: hav_def)

section \<open>Distances on finite coordinates\<close>

lemma calculateDistance_Fin:
  "calculateDistance (Fin lat1) (Fin lon1) (Fin lat2) (Fin lon2) =
     Fin (6371000 * (2 * atan2 (sqrt (hav lat1 lon1 lat2 lon2))
                                (sqrt (1 - hav lat1 lon1 lat2 lon2))))"
proof -
  have r: "\<not> hav lat1 lon1 lat2 lon2 < 0" "\<not> 1 - hav lat1 lon1 lat2 lon2 < 0"
    using hav_range[of lat1 lon1 lat2 lon2] by simp_all
  have a: "js_add
             (js_mul
                (Math_sin (js_div (js_div (js_mul (js_sub (Fin lat2) (Fin lat1)) Math_PI)
                                     (Fin 180)) (Fin 2)))
                (Math_sin (js_div (js_div (js_mul (js_sub (Fin lat2) (Fin lat1)) Math_PI)
                                     (Fin 180)) (Fin 2))))
             (js_mul
                (js_mul (js_mul (Math_cos (js_div (js_mul (Fin lat1) Math_PI) (Fin 180)))
                                (Math_cos (js_div (js_mul (Fin lat2) Math_PI) (Fin 180))))
                   (Math_sin (js_div (js_div (js_mul (js_sub (Fin lon2) (Fin lon1)) Math_PI)
                                        (Fin 180)) (Fin 2))))
                (Math_sin (js_div (js_div (js_mul (js_sub (Fin lon2) (Fin lon1)) Math_PI)
                                     (Fin 180)) (Fin 2))))
           = Fin (hav lat1 lon1 lat2 lon2)"
    by (simp add: js_sub_def Math_PI_def hav_def)
  show ?thesis
    unfolding calculateDistance_def Let_def a
    using r by (simp add: js_sub_def)
qed



lemma calculateDistance_finite_nonneg:
  "\<exists>d. 0 \<le> d \<and> calculateDistance (Fin lat1) (Fin lon1) (Fin lat2) (Fin lon2) = Fin d"
proof -
  have "0 \<le> atan2 (sqrt (hav lat1 lon1 lat2 lon2)) (sqrt (1 - hav lat1 lon1 lat2 lon2))"
    using hav_range[of lat1 lon1 lat2 lon2] by (intro atan2_nonneg) simp_all
  then show ?thesis unfolding calculateDistance_Fin by simp
qed

lemma calculateDistance_same: "calculateDistance (Fin lat) (Fin lon) (Fin lat) (Fin lon) = Fin 0"
  by (simp add: calculateDistance_Fin hav_same atan2_def)

lemma segmentParam_Fin:
  "\<exists>t. segmentParam (Fin px) (Fin py) (Fin x1) (Fin y1) (Fin x2) (Fin y2) = Fin t"
  by (simp add: segmentParam_def js_sub_def js_strict_neq_def Let_def)

lemma distanceToSegment_finite_nonneg:
  "\<exists>d. 0 \<le> d \<and> distanceToSegment (Fin px) (Fin py) (Fin x1) (Fin y1) (Fin x2) (Fin y2) = Fin d"
proof -
  obtain t where t: "segmentParam (Fin px) (Fin py) (Fin x1) (Fin y1) (Fin x2) (Fin y2) = Fin t"
    using segmentParam_Fin by blast
  show ?thesis
    unfolding distanceToSegment_def t
    by (simp add: Let_def js_gt_def js_sub_def calculateDistance_finite_nonneg)
qed

text \<open>A point on a segment of positive length is at distance 0 from it.\<close>

lemma distanceToSegment_on_segment:
  assumes "px = x1 + t * (x2 - x1)" "py = y1 + t * (y2 - y1)" "0 \<le> t" "t \<le> 1"
    and "x2 \<noteq> x1 \<or> y2 \<noteq> y1"
  shows "distanceToSegment (Fin px) (Fin py) (Fin x1) (Fin y1) (Fin x2) (Fin y2) = Fin 0"
proof -
  define L where "L = (x2 - x1) * (x2 - x1) + (y2 - y1) * (y2 - y1)"
  have "0 < (x2 - x1) * (x2 - x1) \<or> 0 < (y2 - y1) * (y2 - y1)"
    using assms(5) by (auto simp: zero_less_mult_iff)
  moreover have "0 \<le> (x2 - x1) * (x2 - x1)" "0 \<le> (y2 - y1) * (y2 - y1)" by simp_all
  ultimately have L: "L \<noteq> 0" unfolding L_def by linarith
  have dot: "(px - x1) * (x2 - x1) + (py - y1) * (y2 - y1) = t * L"
    unfolding L_def assms(1,2) by (simp add: algebra_simps)
  have p: "segmentParam (Fin px) (Fin py) (Fin x1) (Fin y1) (Fin x2) (Fin y2) = Fin t"
    using L dot by (simp add: segmentParam_def js_sub_def js_strict_neq_def Let_def L_def)
  have xy: "x1 + t * (x2 - x1) = px" "y1 + t * (y2 - y1) = py"
    using assms(1,2) by simp_all
  show ?thesis
    unfolding distanceToSegment_def p
    using assms(3,4) xy by (simp add: Let_def js_gt_def js_sub_def calculateDistance_same)
qed



section \<open>The scan for the closest route\<close>

lemma closestLoop_append:
  "closestLoop loc (fs @ gs) acc = closestLoop loc gs (closestLoop loc fs acc)"
proof (induction fs arbitrary: acc)
  case Nil
  show ?case by (cases acc) simp
next
  case (Cons f fs)
  show ?case by (cases acc) (simp add: Let_def Cons.IH)
qed

lemma closestLoop_skip:
  assumes "featureDistance loc f = PosInf"
  shows "closestLoop loc (f # gs) acc = closestLoop loc gs acc"
  using assms by (cases acc) (simp add: js_lt_PosInf_left)

text \<open>
  The result of the scan from any accumulator: if no feature is closer than the
  accumulated minimum, the accumulator comes back unchanged; otherwise the result is the
  first feature among those of least distance.
\<close>

lemma closestLoop_spec:
  "(if \<exists>f\<in>set fs. js_lt (featureDistance loc f) m
    then \<exists>i<length fs.
           closestLoop loc fs (cr, m) =
             (Some \<lparr>route = fs ! i, distance = featureDistance loc (fs ! i)\<rparr>,
              featureDistance loc (fs ! i))
           \<and> js_lt (featureDistance loc (fs ! i)) m
           \<and> (\<forall>j<length fs. \<not> js_lt (featureDistance loc (fs ! j)) (featureDistance loc (fs ! i)))
           \<and> (\<forall>j<i. featureDistance loc (fs ! j) \<noteq> featureDistance loc (fs ! i))
    else closestLoop loc fs (cr, m) = (cr, m))"
proof (induction fs arbitrary: cr m)
  case Nil
  show ?case by simp
next
  case (Cons f fs)
  define d where "d = featureDistance loc f"
  show ?case
  proof (cases "js_lt d m")
    case True
    have step: "closestLoop loc (f # fs) (cr, m) = closestLoop loc fs (Some \<lparr>route = f, distance = d\<rparr>, d)"
      using True by (simp add: d_def Let_def)
    have ex: "\<exists>g\<in>set (f # fs). js_lt (featureDistance loc g) m"
      using True by (auto simp: d_def)
    show ?thesis
    proof (cases "\<exists>g\<in>set fs. js_lt (featureDistance loc g) d")
      case False
      then have r: "closestLoop loc fs (Some \<lparr>route = f, distance = d\<rparr>, d) = (Some \<lparr>route = f, distance = d\<rparr>, d)"
        using Cons.IH[of d "Some \<lparr>route = f, distance = d\<rparr>"] by simp
      have all: "\<forall>j<length (f # fs). \<not> js_lt (featureDistance loc ((f # fs) ! j)) d"
      proof (intro allI impI)
        fix j assume "j < length (f # fs)"
        then show "\<not> js_lt (featureDistance loc ((f # fs) ! j)) d"
          using False by (cases j) (auto simp: d_def js_lt_irrefl)
      qed
      have "0 < length (f # fs)
            \<and> closestLoop loc (f # fs) (cr, m) =
               (Some \<lparr>route = (f # fs) ! 0, distance = featureDistance loc ((f # fs) ! 0)\<rparr>,
                featureDistance loc ((f # fs) ! 0))
            \<and> js_lt (featureDistance loc ((f # fs) ! 0)) m
            \<and> (\<forall>j<length (f # fs). \<not> js_lt (featureDistance loc ((f # fs) ! j)) (featureDistance loc ((f # fs) ! 0)))
            \<and> (\<forall>j<0. featureDistance loc ((f # fs) ! j) \<noteq> featureDistance loc ((f # fs) ! 0))"
        using step r True all by (simp add: d_def)
      then have "\<exists>i<length (f # fs).
           closestLoop loc (f # fs) (cr, m) =
             (Some \<lparr>route = (f # fs) ! i, distance = featureDistance loc ((f # fs) ! i)\<rparr>,
              featureDistance loc ((f # fs) ! i))
           \<and> js_lt (featureDistance loc ((f # fs) ! i)) m
           \<and> (\<forall>j<length (f # fs). \<not> js_lt (featureDistance loc ((f # fs) ! j)) (featureDistance loc ((f # fs) ! i)))
           \<and> (\<forall>j<i. featureDistance loc ((f # fs) ! j) \<noteq> featureDistance loc ((f # fs) ! i))"
        by blast
      with ex show ?thesis by simp
    next
      case True2: True
      then obtain i where i: "i < length fs"
        "closestLoop loc fs (Some \<lparr>route = f, distance = d\<rparr>, d) =
           (Some \<lparr>route = fs ! i, distance = featureDistance loc (fs ! i)\<rparr>, featureDistance loc (fs ! i))"
        "js_lt (featureDistance loc (fs ! i)) d"
        "\<forall>j<length fs. \<not> js_lt (featureDistance loc (fs ! j)) (featureDistance loc (fs ! i))"
        "\<forall>j<i. featureDistance loc (fs ! j) \<noteq> featureDistance loc (fs ! i)"
        using Cons.IH[of d "Some \<lparr>route = f, distance = d\<rparr>"] by auto
      have lt_m: "js_lt (featureDistance loc (fs ! i)) m"
        using i(3) True by (rule js_lt_trans)
      have all: "\<forall>j<length (f # fs). \<not> js_lt (featureDistance loc ((f # fs) ! j)) (featureDistance loc (fs ! i))"
      proof (intro allI impI)
        fix j assume "j < length (f # fs)"
        then show "\<not> js_lt (featureDistance loc ((f # fs) ! j)) (featureDistance loc (fs ! i))"
          using i(3,4) js_lt_asym[of "featureDistance loc (fs ! i)" d] by (cases j) (auto simp: d_def)
      qed
      have first: "\<forall>j<Suc i. featureDistance loc ((f # fs) ! j) \<noteq> featureDistance loc (fs ! i)"
      proof (intro allI impI)
        fix j assume "j < Suc i"
        then show "featureDistance loc ((f # fs) ! j) \<noteq> featureDistance loc (fs ! i)"
          using i(3,5) js_lt_irrefl[of d] by (cases j) (auto simp: d_def)
      qed
      have "Suc i < length (f # fs)
            \<and> closestLoop loc (f # fs) (cr, m) =
               (Some \<lparr>route = (f # fs) ! Suc i, distance = featureDistance loc ((f # fs) ! Suc i)\<rparr>,
                featureDistance loc ((f # fs) ! Suc i))
            \<and> js_lt (featureDistance loc ((f # fs) ! Suc i)) m
            \<and> (\<forall>j<length (f # fs). \<not> js_lt (featureDistance loc ((f # fs) ! j)) (featureDistance loc ((f # fs) ! Suc i)))
            \<and> (\<forall>j<Suc i. featureDistance loc ((f # fs) ! j) \<noteq> featureDistance loc ((f # fs) ! Suc i))"
        using step i(1,2) lt_m all first by simp
      then have "\<exists>k<length (f # fs).
           closestLoop loc (f # fs) (cr, m) =
             (Some \<lparr>route = (f # fs) ! k, distance = featureDistance loc ((f # fs) ! k)\<rparr>,
              featureDistance loc ((f # fs) ! k))
           \<and> js_lt (featureDistance loc ((f # fs) ! k)) m
           \<and> (\<forall>j<length (f # fs). \<not> js_lt (featureDistance loc ((f # fs) ! j)) (featureDistance loc ((f # fs) ! k)))
           \<and> (\<forall>j<k. featureDistance loc ((f # fs) ! j) \<noteq> featureDistance loc ((f # fs) ! k))"
        by blast
      with ex show ?thesis by simp
    qed
  next
    case False
    have step: "closestLoop loc (f # fs) (cr, m) = closestLoop loc fs (cr, m)"
      using False by (simp add: d_def Let_def)
    show ?thesis
    proof (cases "\<exists>g\<in>set fs. js_lt (featureDistance loc g) m")
      case F2: False
      then have "closestLoop loc fs (cr, m) = (cr, m)"
        using Cons.IH[of m cr] by simp
      moreover have "\<not> (\<exists>g\<in>set (f # fs). js_lt (featureDistance loc g) m)"
        using False F2 by (simp add: d_def)
      ultimately show ?thesis using step by simp
    next
      case True
      then obtain i where i: "i < length fs"
        "closestLoop loc fs (cr, m) =
           (Some \<lparr>route = fs ! i, distance = featureDistance loc (fs ! i)\<rparr>, featureDistance loc (fs ! i))"
        "js_lt (featureDistance loc (fs ! i)) m"
        "\<forall>j<length fs. \<not> js_lt (featureDistance loc (fs ! j)) (featureDistance loc (fs ! i))"
        "\<forall>j<i. featureDistance loc (fs ! j) \<noteq> featureDistance loc (fs ! i)"
        using Cons.IH[of m cr] by auto
      have ex: "\<exists>g\<in>set (f # fs). js_lt (featureDistance loc g) m"
        using True by auto
      have nd: "\<not> js_lt d (featureDistance loc (fs ! i))"
        using False i(3) js_lt_trans[of d "featureDistance loc (fs ! i)" m] by blast
      have ne: "d \<noteq> featureDistance loc (fs ! i)"
        using False i(3) by auto
      have all: "\<forall>j<length (f # fs). \<not> js_lt (featureDistance loc ((f # fs) ! j)) (featureDistance loc (fs ! i))"
      proof (intro allI impI)
        fix j assume "j < length (f # fs)"
        then show "\<not> js_lt (featureDistance loc ((f # fs) ! j)) (featureDistance loc (fs ! i))"
          using i(4) nd by (cases j) (auto simp: d_def)
      qed
      have first: "\<forall>j<Suc i. featureDistance loc ((f # fs) ! j) \<noteq> featureDistance loc (fs ! i)"
      proof (intro allI impI)
        fix j assume "j < Suc i"
        then show "featureDistance loc ((f # fs) ! j) \<noteq> featureDistance loc (fs ! i)"
          using i(5) ne by (cases j) (auto simp: d_def)
      qed
      have "Suc i < length (f # fs)
            \<and> closestLoop loc (f # fs) (cr, m) =
               (Some \<lparr>route = (f # fs) ! Suc i, distance = featureDistance loc ((f # fs) ! Suc i)\<rparr>,
                featureDistance loc ((f # fs) ! Suc i))
            \<and> js_lt (featureDistance loc ((f # fs) ! Suc i)) m
            \<and> (\<forall>j<length (f # fs). \<not> js_lt (featureDistance loc ((f # fs) ! j)) (featureDistance loc ((f # fs) ! Suc i)))
            \<and> (\<forall>j<Suc i. featureDistance loc ((f # fs) ! j) \<noteq> featureDistance loc ((f # fs) ! Suc i))"
        using step i(1,2,3) all first by simp
      then have "\<exists>k<length (f # fs).
           closestLoop loc (f # fs) (cr, m) =
             (Some \<lparr>route = (f # fs) ! k, distance = featureDistance loc ((f # fs) ! k)\<rparr>,
              featureDistance loc ((f # fs) ! k))
           \<and> js_lt (featureDistance loc ((f # fs) ! k)) m
           \<and> (\<forall>j<length (f # fs). \<not> js_lt (featureDistance loc ((f # fs) ! j)) (featureDistance loc ((f # fs) ! k)))
           \<and> (\<forall>j<k. featureDistance loc ((f # fs) ! j) \<noteq> featureDistance loc ((f # fs) ! k))"
        by blast
      with ex show ?thesis by simp
    qed
  qed
qed

section \<open>The ledger of paid routes\<close>

lemma isRoutePaid_iff:
  "isRoutePaid rid today jar = (\<exists>m\<in>set (getPaidRoutes jar). routeId m = rid \<and> paidDate m = today)"
  by (simp add: isRoutePaid_def list_ex_iff)

lemma getPaidRoutes_markRoutePaid:
  "getPaidRoutes (markRoutePaid rid today jar) =
     filter (\<lambda>r. routeId r \<noteq> rid) (getPaidRoutes jar) @ [\<lparr>routeId = rid, paidDate = today\<rparr>]"
  by (simp add: markRoutePaid_def)

lemma getPaidRoutes_unmarkRoutePaid:
  "getPaidRoutes (unmarkRoutePaid rid jar) = filter (\<lambda>r. routeId r \<noteq> rid) (getPaidRoutes jar)"
proof (cases "list_ex (\<lambda>r. routeId r = rid) (getPaidRoutes jar)")
  case True
  then show ?thesis by (simp add: unmarkRoutePaid_def)
next
  case False
  then have "\<forall>r\<in>set (getPaidRoutes jar). routeId r \<noteq> rid"
    by (simp add: list_ex_iff)
  then have "filter (\<lambda>r. routeId r \<noteq> rid) (getPaidRoutes jar) = getPaidRoutes jar"
    by (simp add: filter_id_conv)
  with False show ?thesis by (simp add: unmarkRoutePaid_def)
qed

lemma oneMark_markRoutePaid:
  "oneMarkPerRoute jar \<Longrightarrow> oneMarkPerRoute (markRoutePaid rid today jar)"
  unfolding oneMarkPerRoute_def getPaidRoutes_markRoutePaid
  by (auto simp: distinct_map_filter)

lemma oneMark_unmarkRoutePaid:
  "oneMarkPerRoute jar \<Longrightarrow> oneMarkPerRoute (unmarkRoutePaid rid jar)"
  unfolding oneMarkPerRoute_def getPaidRoutes_unmarkRoutePaid
  by (simp add: distinct_map_filter)

lemma oneMark_clearPaidRoutes: "oneMarkPerRoute (clearPaidRoutes jar)"
  by (simp add: clearPaidRoutes_def oneMarkPerRoute_def)

lemma oneMark_applyOp: "oneMarkPerRoute jar \<Longrightarrow> oneMarkPerRoute (applyOp jar x)"
  by (cases x) (simp_all add: oneMark_markRoutePaid oneMark_unmarkRoutePaid oneMark_clearPaidRoutes)

lemma oneMark_runOps: "oneMarkPerRoute jar \<Longrightarrow> oneMarkPerRoute (runOps jar ops)"
  unfolding runOps_def
  by (induction ops arbitrary: jar) (simp_all add: oneMark_applyOp)

section \<open>The proximity effect when no warning is due\<close>

lemma checkProximity_unchanged:
  assumes "userLocation s = Some loc" "routes s = Some rs"
    and "fst (closestRouteOf loc rs) = Some cr"
    and "\<not> requiresPayment (properties (route cr)) \<or> isRoutePaid (id' (properties (route cr))) today jar"
  shows "checkProximity today jar s = s"
  using assms by (auto simp: checkProximity_def Let_def)

section \<open>The example scenario\<close>

lemma pr8_distance: "featureDistance fix1 pr8 = Fin 0"
proof -
  have s1: "distanceToSegment (Fin (- 16.949)) (Fin 32.751) (Fin (- 16.95)) (Fin 32.75)
              (Fin (- 16.94)) (Fin 32.76) = Fin 0"
    by (rule distanceToSegment_on_segment[where t = "1 / 10"]) simp_all
  obtain d where d: "0 \<le> d"
    "distanceToSegment (Fin (- 16.949)) (Fin 32.751) (Fin (- 16.94)) (Fin 32.76)
       (Fin (- 16.93)) (Fin 32.77) = Fin d"
    using distanceToSegment_finite_nonneg by blast
  have "featureDistance fix1 pr8 = Math_min (Math_min PosInf (Fin 0)) (Fin d)"
    unfolding featureDistance_def fix1_def pr8_def Infinity_def
    by (simp only: UserLocation.select_convs RouteFeature.select_convs
          distanceToGeometry.simps lineLoop.simps s1 d(2) Infinity_def)
  then show ?thesis using d(1) by simp
qed

lemma pr8twin_distance: "featureDistance fix1 pr8twin = Fin 0"
  using pr8_distance by (simp add: featureDistance_def pr8twin_def)

lemma emptyRoute_distance: "featureDistance fix1 emptyRoute = PosInf"
  by (simp add: featureDistance_def emptyRoute_def Infinity_def)

lemma nanRoute_distance: "featureDistance fix1 nanRoute = NaN"
  by (simp add: featureDistance_def nanRoute_def fix1_def calculateDistance_def js_sub_def Let_def)

lemma closest_onPr8:
  "closestRouteOf fix1 \<lparr>features = [pr8]\<rparr> = (Some \<lparr>route = pr8, distance = Fin 0\<rparr>, Fin 0)"
  by (simp add: closestRouteOf_def Infinity_def pr8_distance Let_def)

section \<open>The proximity decision\<close>

text \<open>
  C1: when the locations and the routes are loaded, the closest route found by the scan
  is within the threshold of 50 metres, requires payment and is not recorded as paid for
  today, the proximity effect opens the panel on the detail of that route, with that
  route as the nearby route, and the panel renders the warning message.
\<close>

theorem proximity_warning:
  assumes "userLocation s = Some loc" and "routes s = Some rs"
    and "fst (closestRouteOf loc rs) = Some cr"
    and "js_le (distance cr) PROXIMITY_THRESHOLD"
    and "requiresPayment (properties (route cr))"
    and "\<not> isRoutePaid (id' (properties (route cr))) today jar"
  shows "infoPanelState (checkProximity today jar s) =
           \<lparr>isOpen = True, view = RouteDetailView,
            selectedRoute = Some (route cr), nearbyRoute = Some cr\<rparr>
         \<and> renderContent today jar (infoPanelState (checkProximity today jar s))
             = Some WarningMessage"
proof -
  have st: "infoPanelState (checkProximity today jar s) =
           \<lparr>isOpen = True, view = RouteDetailView,
            selectedRoute = Some (route cr), nearbyRoute = Some cr\<rparr>"
    using assms by (simp add: checkProximity_def Let_def)
  have near: "js_le (distance cr) (Fin 50)"
    using assms(4) by (simp add: PROXIMITY_THRESHOLD_def)
  have "renderContent today jar
          \<lparr>isOpen = True, view = RouteDetailView,
           selectedRoute = Some (route cr), nearbyRoute = Some cr\<rparr> = Some WarningMessage"
    using near assms(6) by (simp add: renderContent_def renderRouteDetail_def Let_def)
  with st show ?thesis by simp
qed

theorem proximity_warning_witness:
  "userLocation onPr8 = Some fix1 \<and> routes onPr8 = Some \<lparr>features = [pr8]\<rparr>
   \<and> fst (closestRouteOf fix1 \<lparr>features = [pr8]\<rparr>) = Some \<lparr>route = pr8, distance = Fin 0\<rparr>
   \<and> js_le (Fin 0) PROXIMITY_THRESHOLD
   \<and> requiresPayment (properties pr8)
   \<and> \<not> isRoutePaid ''PR8'' day1 NoCookie
   \<and> infoPanelState (checkProximity day1 NoCookie onPr8) =
        \<lparr>isOpen = True, view = RouteDetailView, selectedRoute = Some pr8,
         nearbyRoute = Some \<lparr>route = pr8, distance = Fin 0\<rparr>\<rparr>
   \<and> renderContent day1 NoCookie (infoPanelState (checkProximity day1 NoCookie onPr8))
       = Some WarningMessage"
proof -
  have h1: "userLocation onPr8 = Some fix1" by (simp add: onPr8_def)
  have h2: "routes onPr8 = Some \<lparr>features = [pr8]\<rparr>" by (simp add: onPr8_def)
  have h3: "fst (closestRouteOf fix1 \<lparr>features = [pr8]\<rparr>)
              = Some \<lparr>route = pr8, distance = Fin 0\<rparr>"
    by (simp add: closest_onPr8)
  have h4: "js_le (distance \<lparr>route = pr8, distance = Fin 0\<rparr>) PROXIMITY_THRESHOLD"
    by (simp add: PROXIMITY_THRESHOLD_def)
  have h5: "requiresPayment (properties (route \<lparr>route = pr8, distance = Fin 0\<rparr>))"
    by (simp add: pr8_def)
  have h6: "\<not> isRoutePaid (id' (properties (route \<lparr>route = pr8, distance = Fin 0\<rparr>)))
              day1 NoCookie"
    by (simp add: isRoutePaid_def)
  have id8: "id' (properties pr8) = ''PR8''" by (simp add: pr8_def)
  note w = proximity_warning[OF h1 h2 h3 h4 h5 h6]
  have c1: "infoPanelState (checkProximity day1 NoCookie onPr8) =
        \<lparr>isOpen = True, view = RouteDetailView, selectedRoute = Some pr8,
         nearbyRoute = Some \<lparr>route = pr8, distance = Fin 0\<rparr>\<rparr>"
    using w by simp
  have c2: "renderContent day1 NoCookie (infoPanelState (checkProximity day1 NoCookie onPr8))
       = Some WarningMessage"
    using w by blast
  have g4: "js_le (Fin 0) PROXIMITY_THRESHOLD" using h4 by simp
  have g5: "requiresPayment (properties pr8)" using h5 by simp
  have g6: "\<not> isRoutePaid ''PR8'' day1 NoCookie" using h6 id8 by simp
  show ?thesis
    using h1 h2 h3 g4 g5 g6 c1 c2 by blast
qed

text \<open>
  C2: a fix within the threshold of a route that is already paid for today should show
  the informational panel. Evaluated on the scenario with PR8 marked as paid for the day
  and the panel closed, the proximity effect returns the state unchanged: the panel stays
  closed and nothing about the route is rendered.
\<close>

theorem proximity_paid_route_no_panel:
  "fst (closestRouteOf fix1 \<lparr>features = [pr8]\<rparr>) = Some \<lparr>route = pr8, distance = Fin 0\<rparr>
   \<and> js_le (Fin 0) PROXIMITY_THRESHOLD
   \<and> isRoutePaid (id' (properties pr8)) day1 (Stored [paid8])
   \<and> checkProximity day1 (Stored [paid8]) onPr8 = onPr8
   \<and> isOpen (infoPanelState onPr8) = False
   \<and> renderContent day1 (Stored [paid8])
        (infoPanelState (checkProximity day1 (Stored [paid8]) onPr8)) = None"
proof -
  have h1: "userLocation onPr8 = Some fix1" by (simp add: onPr8_def)
  have h2: "routes onPr8 = Some \<lparr>features = [pr8]\<rparr>" by (simp add: onPr8_def)
  have h3: "fst (closestRouteOf fix1 \<lparr>features = [pr8]\<rparr>)
              = Some \<lparr>route = pr8, distance = Fin 0\<rparr>"
    by (simp add: closest_onPr8)
  have paid: "isRoutePaid (id' (properties pr8)) day1 (Stored [paid8])"
    by (simp add: isRoutePaid_def pr8_def paid8_def)
  have same: "checkProximity day1 (Stored [paid8]) onPr8 = onPr8"
    using paid by (intro checkProximity_unchanged[OF h1 h2 h3]) simp
  have closed: "isOpen (infoPanelState onPr8) = False"
    by (simp add: onPr8_def closedPanel_def)
  have none: "renderContent day1 (Stored [paid8]) (infoPanelState onPr8) = None"
    by (simp add: renderContent_def onPr8_def closedPanel_def)
  show ?thesis
    using h3 paid same closed none by (simp add: PROXIMITY_THRESHOLD_def)
qed

section \<open>The ledger\<close>

text \<open>
  C3: \<open>isRoutePaid\<close> for a route and a date is true exactly when a stored mark of that
  route carries that date. Marks of other dates are logically absent: dropping them does
  not change the answer. A mark made on the date \<open>d1\<close> reads as unpaid on any other
  date \<open>d2\<close>, and so does any stored mark of date \<open>d1\<close> in a ledger with one mark per
  route.
\<close>

theorem isRoutePaid_today_only:
  "isRoutePaid rid today jar
     = (\<exists>m\<in>set (getPaidRoutes jar). routeId m = rid \<and> paidDate m = today)
   \<and> isRoutePaid rid today jar
       = isRoutePaid rid today (Stored (filter (\<lambda>m. paidDate m = today) (getPaidRoutes jar)))
   \<and> (d2 \<noteq> d1 \<longrightarrow> \<not> isRoutePaid rid d2 (markRoutePaid rid d1 jar))
   \<and> (oneMarkPerRoute jar \<and> \<lparr>routeId = rid, paidDate = d1\<rparr> \<in> set (getPaidRoutes jar)
        \<and> d2 \<noteq> d1
        \<longrightarrow> \<not> isRoutePaid rid d2 jar)"
proof (intro conjI impI)
  show "isRoutePaid rid today jar
     = (\<exists>m\<in>set (getPaidRoutes jar). routeId m = rid \<and> paidDate m = today)"
    by (rule isRoutePaid_iff)
  show "isRoutePaid rid today jar
       = isRoutePaid rid today (Stored (filter (\<lambda>m. paidDate m = today) (getPaidRoutes jar)))"
    by (auto simp: isRoutePaid_iff)
next
  assume "d2 \<noteq> d1"
  then show "\<not> isRoutePaid rid d2 (markRoutePaid rid d1 jar)"
    by (auto simp: isRoutePaid_iff getPaidRoutes_markRoutePaid)
next
  assume a: "oneMarkPerRoute jar \<and> \<lparr>routeId = rid, paidDate = d1\<rparr> \<in> set (getPaidRoutes jar)
               \<and> d2 \<noteq> d1"
  show "\<not> isRoutePaid rid d2 jar"
  proof
    assume "isRoutePaid rid d2 jar"
    then obtain m where m: "m \<in> set (getPaidRoutes jar)" "routeId m = rid" "paidDate m = d2"
      by (auto simp: isRoutePaid_iff)
    from a have "inj_on routeId (set (getPaidRoutes jar))"
      by (simp add: oneMarkPerRoute_def distinct_map)
    then have "m = \<lparr>routeId = rid, paidDate = d1\<rparr>"
      using m a by (intro inj_onD[of routeId "set (getPaidRoutes jar)"]) simp_all
    with m a show False by simp
  qed
qed

theorem isRoutePaid_today_only_witness:
  "day2 \<noteq> day1
   \<and> oneMarkPerRoute (Stored [paid6, paid8])
   \<and> \<lparr>routeId = ''PR8'', paidDate = day1\<rparr> \<in> set (getPaidRoutes (Stored [paid6, paid8]))
   \<and> \<not> isRoutePaid ''PR8'' day2 (Stored [paid6, paid8])
   \<and> \<not> isRoutePaid ''PR8'' day2 (markRoutePaid ''PR8'' day1 (Stored [paid6, paid8]))"
proof -
  have h1: "day2 \<noteq> day1" by (simp add: day1_def day2_def)
  have h2: "oneMarkPerRoute (Stored [paid6, paid8])"
    by (simp add: oneMarkPerRoute_def paid6_def paid8_def)
  have h3: "\<lparr>routeId = ''PR8'', paidDate = day1\<rparr> \<in> set (getPaidRoutes (Stored [paid6, paid8]))"
    by (simp add: paid8_def)
  show ?thesis
    using isRoutePaid_today_only[of "''PR8''" day1 "Stored [paid6, paid8]" day2 day1] h1 h2 h3
    by blast
qed

text \<open>
  C5: the ledger holds at most one mark per route id after any sequence of
  \<open>markRoutePaid\<close>, \<open>unmarkRoutePaid\<close> and \<open>clearPaidRoutes\<close>, from the absent cookie and
  from any ledger that has the property; and after \<open>markRoutePaid\<close> the only mark of the
  route is the new one, whatever marks of whatever dates the route had before.
\<close>

theorem ledger_one_mark_per_route:
  "oneMarkPerRoute (runOps NoCookie ops)
   \<and> (oneMarkPerRoute jar \<longrightarrow> oneMarkPerRoute (runOps jar ops))
   \<and> filter (\<lambda>m. routeId m = rid) (getPaidRoutes (markRoutePaid rid today jar))
       = [\<lparr>routeId = rid, paidDate = today\<rparr>]"
proof (intro conjI impI)
  have "oneMarkPerRoute NoCookie" by (simp add: oneMarkPerRoute_def)
  then show "oneMarkPerRoute (runOps NoCookie ops)" by (rule oneMark_runOps)
next
  assume "oneMarkPerRoute jar"
  then show "oneMarkPerRoute (runOps jar ops)" by (rule oneMark_runOps)
next
  have "filter (\<lambda>m. routeId m = rid) (filter (\<lambda>r. routeId r \<noteq> rid) (getPaidRoutes jar)) = []"
    by (simp add: filter_empty_conv)
  then show "filter (\<lambda>m. routeId m = rid) (getPaidRoutes (markRoutePaid rid today jar))
       = [\<lparr>routeId = rid, paidDate = today\<rparr>]"
    by (simp add: getPaidRoutes_markRoutePaid)
qed

theorem ledger_one_mark_per_route_witness:
  "oneMarkPerRoute (Stored [paid6, paid8])
   \<and> oneMarkPerRoute
       (runOps (Stored [paid6, paid8])
          [MarkPaid ''PR8'' day2, UnmarkPaid ''PR6'', MarkPaid ''PR8'' day1, Clear,
           MarkPaid ''PR1'' day2])
   \<and> filter (\<lambda>m. routeId m = ''PR8'')
        (getPaidRoutes (markRoutePaid ''PR8'' day2 (Stored [paid8, paid6, paid8])))
       = [\<lparr>routeId = ''PR8'', paidDate = day2\<rparr>]"
proof -
  have h: "oneMarkPerRoute (Stored [paid6, paid8])"
    by (simp add: oneMarkPerRoute_def paid6_def paid8_def)
  show ?thesis
    using h
      ledger_one_mark_per_route[of
        "[MarkPaid ''PR8'' day2, UnmarkPaid ''PR6'', MarkPaid ''PR8'' day1, Clear,
          MarkPaid ''PR1'' day2]"
        "Stored [paid6, paid8]" "''PR8''" day2]
      ledger_one_mark_per_route[of "[]" "Stored [paid8, paid6, paid8]" "''PR8''" day2]
    by blast
qed

text \<open>
  C6: after \<open>unmarkRoutePaid\<close> no mark of the route is left, whatever its date, so
  \<open>isRoutePaid\<close> is false for every date; when the route has no mark the cookie is left
  as it is. \<open>handleUnmarkPaid\<close> passes this on: the route is not among the paid route
  ids of the application state afterwards.
\<close>

theorem unmarkRoutePaid_removes:
  "\<not> isRoutePaid rid today (unmarkRoutePaid rid jar)
   \<and> rid \<notin> routeId ` set (getPaidRoutes (unmarkRoutePaid rid jar))
   \<and> (rid \<notin> routeId ` set (getPaidRoutes jar) \<longrightarrow> unmarkRoutePaid rid jar = jar)
   \<and> rid \<notin> set (paidRouteIds (snd (handleUnmarkPaid rid (jar, s))))
   \<and> \<not> isRoutePaid rid today (fst (handleUnmarkPaid rid (jar, s)))"
proof (intro conjI impI)
  show n: "rid \<notin> routeId ` set (getPaidRoutes (unmarkRoutePaid rid jar))"
    by (auto simp: getPaidRoutes_unmarkRoutePaid)
  then show p: "\<not> isRoutePaid rid today (unmarkRoutePaid rid jar)"
    by (auto simp: isRoutePaid_iff)
  from n show "rid \<notin> set (paidRouteIds (snd (handleUnmarkPaid rid (jar, s))))"
    by (simp add: handleUnmarkPaid_def Let_def)
  from p show "\<not> isRoutePaid rid today (fst (handleUnmarkPaid rid (jar, s)))"
    by (simp add: handleUnmarkPaid_def Let_def)
next
  assume "rid \<notin> routeId ` set (getPaidRoutes jar)"
  then have "\<not> list_ex (\<lambda>r. routeId r = rid) (getPaidRoutes jar)"
    by (auto simp: list_ex_iff)
  then show "unmarkRoutePaid rid jar = jar"
    by (simp add: unmarkRoutePaid_def)
qed

theorem unmarkRoutePaid_removes_witness:
  "''PR1'' \<notin> routeId ` set (getPaidRoutes (Stored [paid6, paid8]))
   \<and> unmarkRoutePaid ''PR1'' (Stored [paid6, paid8]) = Stored [paid6, paid8]
   \<and> \<not> isRoutePaid ''PR1'' day1 (unmarkRoutePaid ''PR1'' (Stored [paid6, paid8]))
   \<and> isRoutePaid ''PR8'' day1 (Stored [paid6, paid8])
   \<and> \<not> isRoutePaid ''PR8'' day1 (unmarkRoutePaid ''PR8'' (Stored [paid6, paid8]))"
proof -
  have h: "''PR1'' \<notin> routeId ` set (getPaidRoutes (Stored [paid6, paid8]))"
    by (simp add: paid6_def paid8_def)
  have p: "isRoutePaid ''PR8'' day1 (Stored [paid6, paid8])"
    by (simp add: isRoutePaid_def paid6_def paid8_def)
  show ?thesis
    using h p
      unmarkRoutePaid_removes[of "''PR1''" day1 "Stored [paid6, paid8]" onPr8]
      unmarkRoutePaid_removes[of "''PR8''" day1 "Stored [paid6, paid8]" onPr8]
    by blast
qed

text \<open>
  C10: \<open>markRoutePaid\<close> leaves the marks of all other routes as they were, each with
  its route id and its date, and in the same order.
\<close>

theorem markRoutePaid_frame:
  "filter (\<lambda>m. routeId m \<noteq> rid) (getPaidRoutes (markRoutePaid rid today jar))
     = filter (\<lambda>m. routeId m \<noteq> rid) (getPaidRoutes jar)"
  by (simp add: getPaidRoutes_markRoutePaid)

theorem markRoutePaid_frame_witness:
  "filter (\<lambda>m. routeId m \<noteq> ''PR8'')
     (getPaidRoutes (markRoutePaid ''PR8'' day2 (Stored [paid6, paid8, paid1])))
     = [paid6, paid1]"
  using markRoutePaid_frame[of "''PR8''" day2 "Stored [paid6, paid8, paid1]"]
  by (simp add: paid6_def paid8_def paid1_def)

section \<open>The nearest route\<close>

text \<open>
  C4, as stated, at a catalogue whose only route has an empty multi-line geometry: the
  route is at distance \<open>Infinity\<close>, which is the least distance in the catalogue, and
  the scan returns no route.
\<close>

theorem closestRoute_all_infinite_counterexample:
  "features \<lparr>features = [emptyRoute]\<rparr> = [emptyRoute]
   \<and> featureDistance fix1 emptyRoute = Infinity
   \<and> closestRouteOf fix1 \<lparr>features = [emptyRoute]\<rparr> = (None, Infinity)"
  by (simp add: closestRouteOf_def emptyRoute_distance Infinity_def Let_def)

text \<open>
  C4, amended: over an empty catalogue, and over a catalogue in which no route has a
  distance below \<open>Infinity\<close>, the scan returns no route and \<open>Infinity\<close>. Otherwise it
  returns a route of the catalogue together with its distance, that distance is below
  \<open>Infinity\<close> (so it is a number), no route of the catalogue is closer, and no route
  before it in the catalogue has the same distance.
\<close>

theorem closestRoute_first_minimum:
  "closestRouteOf loc \<lparr>features = []\<rparr> = (None, Infinity)
   \<and> ((\<forall>f\<in>set (features rs). \<not> js_lt (featureDistance loc f) Infinity)
        \<longrightarrow> closestRouteOf loc rs = (None, Infinity))
   \<and> ((\<exists>f\<in>set (features rs). js_lt (featureDistance loc f) Infinity)
        \<longrightarrow> (\<exists>i<length (features rs).
               closestRouteOf loc rs =
                 (Some \<lparr>route = features rs ! i,
                        distance = featureDistance loc (features rs ! i)\<rparr>,
                  featureDistance loc (features rs ! i))
               \<and> js_lt (featureDistance loc (features rs ! i)) Infinity
               \<and> (\<forall>j<length (features rs).
                     \<not> js_lt (featureDistance loc (features rs ! j))
                             (featureDistance loc (features rs ! i)))
               \<and> (\<forall>j<i. featureDistance loc (features rs ! j)
                            \<noteq> featureDistance loc (features rs ! i))))"
proof (intro conjI impI)
  show "closestRouteOf loc \<lparr>features = []\<rparr> = (None, Infinity)"
    by (simp add: closestRouteOf_def)
next
  assume "\<forall>f\<in>set (features rs). \<not> js_lt (featureDistance loc f) Infinity"
  then show "closestRouteOf loc rs = (None, Infinity)"
    using closestLoop_spec[of "features rs" loc Infinity None] by (simp add: closestRouteOf_def)
next
  assume "\<exists>f\<in>set (features rs). js_lt (featureDistance loc f) Infinity"
  then show "\<exists>i<length (features rs).
               closestRouteOf loc rs =
                 (Some \<lparr>route = features rs ! i,
                        distance = featureDistance loc (features rs ! i)\<rparr>,
                  featureDistance loc (features rs ! i))
               \<and> js_lt (featureDistance loc (features rs ! i)) Infinity
               \<and> (\<forall>j<length (features rs).
                     \<not> js_lt (featureDistance loc (features rs ! j))
                             (featureDistance loc (features rs ! i)))
               \<and> (\<forall>j<i. featureDistance loc (features rs ! j)
                            \<noteq> featureDistance loc (features rs ! i))"
    using closestLoop_spec[of "features rs" loc Infinity None]
    unfolding closestRouteOf_def by (simp only: if_True)
qed

text \<open>
  On the catalogue of a route without coordinates (distance \<open>NaN\<close>), the empty route
  (distance \<open>Infinity\<close>), PR8 and its twin (both at distance 0 from the fix), the
  theorem leaves PR8 as the only possible answer.
\<close>

theorem closestRoute_first_minimum_witness:
  "(\<exists>f\<in>set (features \<lparr>features = [nanRoute, emptyRoute, pr8, pr8twin]\<rparr>).
       js_lt (featureDistance fix1 f) Infinity)
   \<and> closestRouteOf fix1 \<lparr>features = [nanRoute, emptyRoute, pr8, pr8twin]\<rparr>
       = (Some \<lparr>route = pr8, distance = Fin 0\<rparr>, Fin 0)"
proof -
  let ?rs = "\<lparr>features = [nanRoute, emptyRoute, pr8, pr8twin]\<rparr>"
  have ex: "\<exists>f\<in>set (features ?rs). js_lt (featureDistance fix1 f) Infinity"
    by (simp add: pr8_distance Infinity_def)
  with closestRoute_first_minimum[of fix1 ?rs]
  obtain i where i: "i < length (features ?rs)"
    "closestRouteOf fix1 ?rs =
       (Some \<lparr>route = features ?rs ! i, distance = featureDistance fix1 (features ?rs ! i)\<rparr>,
        featureDistance fix1 (features ?rs ! i))"
    "js_lt (featureDistance fix1 (features ?rs ! i)) Infinity"
    "\<forall>j<length (features ?rs).
        \<not> js_lt (featureDistance fix1 (features ?rs ! j)) (featureDistance fix1 (features ?rs ! i))"
    "\<forall>j<i. featureDistance fix1 (features ?rs ! j) \<noteq> featureDistance fix1 (features ?rs ! i)"
    by blast
  from i(1) have "i = 0 \<or> i = 1 \<or> i = 2 \<or> i = 3" by auto
  moreover have "i \<noteq> 0"
  proof
    assume "i = 0"
    with i(3) show False by (simp add: nanRoute_distance)
  qed
  moreover have "i \<noteq> 1"
  proof
    assume "i = 1"
    with i(3) show False by (simp add: emptyRoute_distance Infinity_def)
  qed
  moreover have "i \<noteq> 3"
  proof
    assume "i = 3"
    with i(5)[rule_format, of 2]
    have "featureDistance fix1 (features ?rs ! 2) \<noteq> featureDistance fix1 (features ?rs ! 3)"
      by simp
    then show False by (simp add: pr8_distance pr8twin_distance)
  qed
  ultimately have "i = 2" by blast
  with i(2) have "closestRouteOf fix1 ?rs = (Some \<lparr>route = pr8, distance = Fin 0\<rparr>, Fin 0)"
    by (simp add: pr8_distance)
  with ex show ?thesis by simp
qed

section \<open>Loading the catalogue\<close>

text \<open>
  C7, as stated, at a catalogue with a duplicated route id and a polygon geometry: the
  promise chain resolves with the catalogue and the catalogue is installed.
\<close>

theorem loadRoutes_no_validation_counterexample:
  "duplicateIds \<lparr>features = [pr8, polygonRoute]\<rparr>
   \<and> unsupportedGeometries \<lparr>features = [pr8, polygonRoute]\<rparr>
   \<and> fetchRoutes (Response True (Some \<lparr>features = [pr8, polygonRoute]\<rparr>))
       = Inr \<lparr>features = [pr8, polygonRoute]\<rparr>
   \<and> routes (loadRoutes (Response True (Some \<lparr>features = [pr8, polygonRoute]\<rparr>)) onPr8)
       = Some \<lparr>features = [pr8, polygonRoute]\<rparr>"
  by (simp add: duplicateIds_def unsupportedGeometries_def loadRoutes_def pr8_def polygonRoute_def)

text \<open>
  C7, amended: loading installs the catalogue of every response that is ok and has a
  body with features, as it is, without looking at the route ids or the geometries; it
  leaves the state unchanged when the response is ok without such a body, when the
  response is not ok, and when the request fails.
\<close>

theorem loadRoutes_installs_unvalidated:
  "fetchRoutes (Response True (Some data)) = Inr data
   \<and> routes (loadRoutes (Response True (Some data)) s) = Some data
   \<and> loadRoutes (Response True None) s = s
   \<and> loadRoutes (Response False body) s = s
   \<and> loadRoutes FetchRejected s = s"
  by (simp add: loadRoutes_def)

theorem loadRoutes_installs_unvalidated_witness:
  "routes (loadRoutes (Response True (Some \<lparr>features = [pr8twin]\<rparr>)) onPr8)
     = Some \<lparr>features = [pr8twin]\<rparr>
   \<and> routes (loadRoutes (Response False (Some \<lparr>features = [pr8twin]\<rparr>)) onPr8)
     = Some \<lparr>features = [pr8]\<rparr>
   \<and> routes (loadRoutes (Response True None) onPr8) = Some \<lparr>features = [pr8]\<rparr>
   \<and> routes (loadRoutes FetchRejected onPr8) = Some \<lparr>features = [pr8]\<rparr>"
  using loadRoutes_installs_unvalidated[of "\<lparr>features = [pr8twin]\<rparr>" onPr8
          "Some \<lparr>features = [pr8twin]\<rparr>"]
  by (simp add: onPr8_def)

section \<open>Degenerate and unsupported geometries\<close>

text \<open>
  C8: the distance to a point geometry is \<open>calculateDistance\<close> to that point; the
  distance to every geometry other than a point, a line string and a multi-line string is
  \<open>Infinity\<close>; and a feature with such a geometry, anywhere in the catalogue, leaves the
  scan for the closest route with the result it has without that feature.
\<close>

theorem distanceToGeometry_point_and_unsupported:
  "distanceToGeometry lat lon (Point (plon, plat)) = calculateDistance lat lon plat plon
   \<and> (\<not> supportedGeometry g \<longrightarrow> distanceToGeometry lat lon g = Infinity)
   \<and> (\<not> supportedGeometry (geometry f) \<longrightarrow>
        closestLoop loc (fs @ f # gs) acc = closestLoop loc (fs @ gs) acc)"
proof (intro conjI impI)
  show "distanceToGeometry lat lon (Point (plon, plat)) = calculateDistance lat lon plat plon"
    by simp
next
  assume "\<not> supportedGeometry g"
  then show "distanceToGeometry lat lon g = Infinity"
    by (cases g) simp_all
next
  assume u: "\<not> supportedGeometry (geometry f)"
  then have "distanceToGeometry (latitude loc) (longitude loc) (geometry f) = Infinity"
    by (cases "geometry f") simp_all
  then have "featureDistance loc f = PosInf"
    by (simp add: featureDistance_def Infinity_def)
  then show "closestLoop loc (fs @ f # gs) acc = closestLoop loc (fs @ gs) acc"
    by (simp add: closestLoop_append closestLoop_skip)
qed

theorem distanceToGeometry_point_and_unsupported_witness:
  "\<not> supportedGeometry (Polygon [])
   \<and> distanceToGeometry (Fin 32.751) (Fin (- 16.949)) (Polygon []) = Infinity
   \<and> \<not> supportedGeometry (geometry polygonRoute)
   \<and> closestLoop fix1 ([pr8] @ polygonRoute # [pr8twin]) (None, Infinity)
       = closestLoop fix1 ([pr8] @ [pr8twin]) (None, Infinity)"
proof -
  have h1: "\<not> supportedGeometry (Polygon [])" by simp
  have h2: "\<not> supportedGeometry (geometry polygonRoute)" by (simp add: polygonRoute_def)
  show ?thesis
    using h1 h2
      distanceToGeometry_point_and_unsupported[of "Fin 32.751" "Fin (- 16.949)" PosInf PosInf
        "Polygon []" polygonRoute fix1 "[pr8]" "[pr8twin]" "(None, Infinity)"]
    by blast
qed



end
